theory Spec2Isabelle
  imports Complex_Main
begin

section \<open>Fused dot-product attention: abstract evaluation, backend configuration, lowering\<close>

text \<open>
  A shallow embedding of \<^verbatim>\<open>jax/experimental/fused_attention_stableHLO.py\<close>.
  Python exceptions are values of the type \<open>error\<close>, and a function that may raise
  returns \<open>error + 'a\<close> with \<open>Inl\<close> for the exception. The scale argument is never
  computed with: it has an arbitrary type \<open>'s\<close> and is carried unchanged.
\<close>

subsection \<open>Descriptors and dtypes\<close>

text \<open>The numpy/jax.numpy dtypes a descriptor may carry.\<close>

datatype dtype =
    bool8 | int8 | int16 | int32 | int64
  | uint8 | uint16 | uint32 | uint64
  | float16 | bfloat16 | float32 | float64
  | complex64 | complex128

text \<open>
  \<^verbatim>\<open>ShapedArray(shape, dtype)\<close>: the abstract value of a tensor, a tuple of axis
  lengths and a dtype.
\<close>

record ShapedArray =
  shape :: "int list"
  dtype :: dtype

text \<open>
  The two exceptions the file can raise itself: a failed \<^verbatim>\<open>assert\<close>, and the
  \<^verbatim>\<open>ValueError\<close> of unpacking a shape whose length is not four into four names.
  The third is raised on the file's behalf: \<^verbatim>\<open>RuntimeError\<close> is what the
  library's \<^verbatim>\<open>custom_call\<close> answers with when it refuses its arguments.
\<close>

datatype error = AssertionError | ValueError | RuntimeError

text \<open>
  \<^verbatim>\<open>a, b, c, d = xs\<close>: succeeds exactly on sequences of length four.
\<close>

fun unpack4 :: "'a list \<Rightarrow> error + ('a \<times> 'a \<times> 'a \<times> 'a)" where
  "unpack4 [a, b, c, d] = Inr (a, b, c, d)"
| "unpack4 _ = Inl ValueError"

subsection \<open>Dtype canonicalization\<close>

text \<open>
  \<^verbatim>\<open>dtypes.canonicalize_dtype\<close> belongs to the host library and is not part of this
  file, so the abstract-evaluation functions below take it as the parameter \<open>canon\<close>.
  What the claims need of it is stated by two predicates: it leaves the two supported
  formats alone, and it maps no other dtype onto one of them.
\<close>

definition supported :: "dtype list" where
  "supported = [float16, bfloat16]"

definition canon_keeps_supported :: "(dtype \<Rightarrow> dtype) \<Rightarrow> bool" where
  "canon_keeps_supported canon = (canon float16 = float16 \<and> canon bfloat16 = bfloat16)"

definition all_dtypes :: "dtype list" where
  "all_dtypes = [bool8, int8, int16, int32, int64, uint8, uint16, uint32, uint64,
     float16, bfloat16, float32, float64, complex64, complex128]"

definition canon_only_supported :: "(dtype \<Rightarrow> dtype) \<Rightarrow> bool" where
  "canon_only_supported canon =
     list_all (\<lambda>d. canon d \<in> set supported \<longrightarrow> canon d = d) all_dtypes"

text \<open>
  The host library's canonicalization, as an instance for the parameter: with 64-bit
  mode on nothing changes, with it off each 64-bit dtype becomes its 32-bit
  counterpart. It only instantiates \<open>canon\<close> at concrete inputs; every general
  theorem below holds for any \<open>canon\<close> that satisfies the predicates it names.
\<close>

fun canonicalize_dtype :: "bool \<Rightarrow> dtype \<Rightarrow> dtype" where
  "canonicalize_dtype True d = d"
| "canonicalize_dtype False int64 = int32"
| "canonicalize_dtype False uint64 = uint32"
| "canonicalize_dtype False float64 = float32"
| "canonicalize_dtype False complex128 = complex64"
| "canonicalize_dtype False d = d"

subsection \<open>Abstract evaluation\<close>

text \<open>
  \<^verbatim>\<open>_dot_product_attention_fwd_abstract(query, key, value, scale)\<close>: the two
  assertions on the canonical dtypes, then the two unpackings, then the pair of result
  descriptors. The shape of \<open>value\<close> is never read, and of the shape of \<open>key\<close> only
  axis 1 is kept.
\<close>

definition dot_product_attention_fwd_abstract ::
  "(dtype \<Rightarrow> dtype) \<Rightarrow> ShapedArray \<Rightarrow> ShapedArray \<Rightarrow> ShapedArray \<Rightarrow> 's
     \<Rightarrow> error + (ShapedArray \<times> ShapedArray)" where
  "dot_product_attention_fwd_abstract canon query key val scale =
     (let query_dtype = canon (dtype query);
          key_dtype = canon (dtype key);
          value_dtype = canon (dtype val)
      in if \<not> (query_dtype = key_dtype \<and> key_dtype = value_dtype) then Inl AssertionError
         else if query_dtype \<notin> set [float16, bfloat16] then Inl AssertionError
         else case unpack4 (shape query) of
             Inl e \<Rightarrow> Inl e
           | Inr (batch_size, q_seq_len, num_heads, head_dim) \<Rightarrow>
               (case unpack4 (shape key) of
                  Inl e \<Rightarrow> Inl e
                | Inr (_, kv_seq_len, _, _) \<Rightarrow>
                    (let output_shape = [batch_size, q_seq_len, num_heads, head_dim];
                         activation_shape = [batch_size, num_heads, q_seq_len, kv_seq_len]
                     in Inr (\<lparr>shape = output_shape, dtype = query_dtype\<rparr>,
                             \<lparr>shape = activation_shape, dtype = query_dtype\<rparr>))))"

text \<open>
  \<^verbatim>\<open>_dot_product_attention_bwd_abstract(grad_output, query, key, value, activation,
  scale)\<close>: the same two assertions, then three descriptors built from the shapes of
  \<open>query\<close>, \<open>key\<close> and \<open>value\<close> and their canonical dtypes. No shape is unpacked,
  and \<open>grad_output\<close>, \<open>activation\<close> and \<open>scale\<close> are never read.
\<close>

definition dot_product_attention_bwd_abstract ::
  "(dtype \<Rightarrow> dtype) \<Rightarrow> ShapedArray \<Rightarrow> ShapedArray \<Rightarrow> ShapedArray \<Rightarrow> ShapedArray
     \<Rightarrow> ShapedArray \<Rightarrow> 's \<Rightarrow> error + (ShapedArray \<times> ShapedArray \<times> ShapedArray)" where
  "dot_product_attention_bwd_abstract canon grad_output query key val activation scale =
     (let query_dtype = canon (dtype query);
          key_dtype = canon (dtype key);
          value_dtype = canon (dtype val)
      in if \<not> (query_dtype = key_dtype \<and> key_dtype = value_dtype) then Inl AssertionError
         else if query_dtype \<notin> set [float16, bfloat16] then Inl AssertionError
         else Inr (\<lparr>shape = shape query, dtype = query_dtype\<rparr>,
                   \<lparr>shape = shape key, dtype = key_dtype\<rparr>,
                   \<lparr>shape = shape val, dtype = value_dtype\<rparr>))"

subsection \<open>Backend configuration\<close>

text \<open>
  The element types of the intermediate representation that a ranked tensor type may
  carry; only the first two have a backend tag.
\<close>

datatype ir_type = BF16Type | F16Type | F32Type | F64Type | IntegerType nat

text \<open>
  \<^verbatim>\<open>element_type_to_backend_config_type_mapping(dtype)\<close>: a dictionary lookup with
  \<^verbatim>\<open>.get\<close>, which yields \<^verbatim>\<open>None\<close> on a missing key and never raises.
\<close>

definition element_type_to_backend_config_type_mapping :: "ir_type \<Rightarrow> string option" where
  "element_type_to_backend_config_type_mapping dt =
     [BF16Type \<mapsto> ''BF16'', F16Type \<mapsto> ''F16''] dt"

text \<open>
  \<^verbatim>\<open>default_layouts(*shapes)\<close>: for each shape the axis indices from the last down
  to 0.
\<close>

definition default_layouts :: "'a list list \<Rightarrow> nat list list" where
  "default_layouts shapes = map (\<lambda>shape. rev [0..<length shape]) shapes"

text \<open>Python's \<^verbatim>\<open>str\<close> on an integer: decimal digits, with a minus sign below zero.\<close>

fun str_nat :: "nat \<Rightarrow> string" where
  "str_nat n =
     (if n < 10 then [''0123456789'' ! n]
      else str_nat (n div 10) @ [''0123456789'' ! (n mod 10)])"

declare str_nat.simps [simp del]

definition str :: "int \<Rightarrow> string" where
  "str i = (if i < 0 then CHR ''-'' # str_nat (nat (- i)) else str_nat (nat i))"

text \<open>The configuration dictionary, one record per nested dictionary, keys as fields.\<close>

record algorithm_config =
  algo_id :: string
  math_type :: string
  tuning_knobs :: "(string \<times> string) list"
  is_cudnn_frontend :: bool
  workspace_size :: string

record dot_dimension_numbers =
  lhs_contracting_dimensions :: "string list"
  rhs_contracting_dimensions :: "string list"
  lhs_batch_dimensions :: "string list"
  rhs_batch_dimensions :: "string list"

record layout_config =
  dim_level_types :: "string list"
  dim_unique :: "string list"
  dim_ordered :: "string list"
  minor_to_major :: "string list"
  tiles :: "string list"
  element_size_in_bits :: string
  memory_space :: string
  index_primitive_type :: string
  pointer_primitive_type :: string
  dynamic_shape_metadata_prefix_bytes :: string

record tensor_shape_config =
  element_type :: "string option"
  dimensions :: "string list"
  tuple_shapes :: "string list"
  layout :: layout_config
  is_dynamic_dimension :: "bool list"

record ('s, 'r) backend_config =
  algorithm :: algorithm_config
  fmha_scale :: 's
  dropout_rate :: 'r
  bmm1_dot_dimension_numbers :: dot_dimension_numbers
  bmm2_dot_dimension_numbers :: dot_dimension_numbers
  bmm1_grad_gemm1_dot_dimension_numbers :: dot_dimension_numbers
  bmm1_grad_gemm2_dot_dimension_numbers :: dot_dimension_numbers
  bmm2_grad_gemm1_dot_dimension_numbers :: dot_dimension_numbers
  bmm2_grad_gemm2_dot_dimension_numbers :: dot_dimension_numbers
  intermediate_tensor_shape :: tensor_shape_config
  seed :: string
  is_flash_attention :: bool
  is_causal_mask :: bool

text \<open>
  \<^verbatim>\<open>create_dot_product_attention_backend_config\<close>: a dictionary literal. Nothing in
  it raises; the only parts that depend on the arguments are the scale, the dropout
  rate, the element-type tag, the four dimension strings and the two flags.
\<close>

definition create_dot_product_attention_backend_config ::
  "int \<Rightarrow> int \<Rightarrow> int \<Rightarrow> int \<Rightarrow> ir_type \<Rightarrow> 's \<Rightarrow> 'r \<Rightarrow> bool \<Rightarrow> bool
     \<Rightarrow> ('s, 'r) backend_config" where
  "create_dot_product_attention_backend_config batch_size num_heads seq_q seq_kv dt
       fmha_scale' dropout_rate' is_flash_attention' is_causal_mask' =
     \<lparr>algorithm =
        \<lparr>algo_id = ''0'', math_type = ''TENSOR_OP_MATH'',
         tuning_knobs = [(''17'', ''1''), (''24'', ''0'')],
         is_cudnn_frontend = True, workspace_size = ''0''\<rparr>,
      fmha_scale = fmha_scale',
      dropout_rate = dropout_rate',
      bmm1_dot_dimension_numbers =
        \<lparr>lhs_contracting_dimensions = [''3''], rhs_contracting_dimensions = [''3''],
         lhs_batch_dimensions = [''0'', ''2''], rhs_batch_dimensions = [''0'', ''2'']\<rparr>,
      bmm2_dot_dimension_numbers =
        \<lparr>lhs_contracting_dimensions = [''3''], rhs_contracting_dimensions = [''1''],
         lhs_batch_dimensions = [''0'', ''1''], rhs_batch_dimensions = [''0'', ''2'']\<rparr>,
      bmm1_grad_gemm1_dot_dimension_numbers =
        \<lparr>lhs_contracting_dimensions = [''2''], rhs_contracting_dimensions = [''1''],
         lhs_batch_dimensions = [''0'', ''1''], rhs_batch_dimensions = [''0'', ''2'']\<rparr>,
      bmm1_grad_gemm2_dot_dimension_numbers =
        \<lparr>lhs_contracting_dimensions = [''3''], rhs_contracting_dimensions = [''1''],
         lhs_batch_dimensions = [''0'', ''1''], rhs_batch_dimensions = [''0'', ''2'']\<rparr>,
      bmm2_grad_gemm1_dot_dimension_numbers =
        \<lparr>lhs_contracting_dimensions = [''2''], rhs_contracting_dimensions = [''1''],
         lhs_batch_dimensions = [''0'', ''1''], rhs_batch_dimensions = [''0'', ''2'']\<rparr>,
      bmm2_grad_gemm2_dot_dimension_numbers =
        \<lparr>lhs_contracting_dimensions = [''3''], rhs_contracting_dimensions = [''3''],
         lhs_batch_dimensions = [''0'', ''2''], rhs_batch_dimensions = [''0'', ''2'']\<rparr>,
      intermediate_tensor_shape =
        \<lparr>element_type = element_type_to_backend_config_type_mapping dt,
         dimensions = [str batch_size, str num_heads, str seq_q, str seq_kv],
         tuple_shapes = [],
         layout =
           \<lparr>dim_level_types = [], dim_unique = [], dim_ordered = [],
            minor_to_major = [''3'', ''2'', ''1'', ''0''], tiles = [],
            element_size_in_bits = ''0'', memory_space = ''0'',
            index_primitive_type = ''PRIMITIVE_TYPE_INVALID'',
            pointer_primitive_type = ''PRIMITIVE_TYPE_INVALID'',
            dynamic_shape_metadata_prefix_bytes = ''0''\<rparr>,
         is_dynamic_dimension = [False, False, False, False]\<rparr>,
      seed = ''42'',
      is_flash_attention = is_flash_attention',
      is_causal_mask = is_causal_mask'\<rparr>"

subsection \<open>Lowering\<close>

text \<open>
  A ranked tensor type of the intermediate representation (\<^verbatim>\<open>shape\<close> and
  \<^verbatim>\<open>element_type\<close> in the source; the fields are prefixed here because the
  descriptor and the configuration have fields of the same names), and a value, which
  is known by an identifier and its \<^verbatim>\<open>type\<close>.
\<close>

record RankedTensorType =
  rt_shape :: "int list"
  rt_element_type :: ir_type

record Value =
  value_id :: nat
  value_type :: RankedTensorType

text \<open>
  What \<^verbatim>\<open>custom_call\<close> is given: the call target, the result types, the operands,
  the configuration and the layouts.

  \<^verbatim>\<open>custom_call\<close> itself belongs to \<^verbatim>\<open>jaxlib.hlo_helpers\<close> and is not part
  of this file, so both lowerings take it as their first parameter: a function from
  the arguments to an operation of some type \<open>'o\<close> or to the exception it raises. The
  lowerings hand it the configuration as the dictionary the encoder returned, and
  whether it accepts that or raises is the library's matter; nothing below assumes
  that it returns.
\<close>

record ('s, 'r) custom_call_args =
  call_target_name :: string
  result_types :: "RankedTensorType list"
  operands :: "Value list"
  backend_config :: "('s, 'r) backend_config"
  operand_layouts :: "nat list list"
  result_layouts :: "nat list list"

text \<open>
  \<^verbatim>\<open>_dot_product_attention_fwd_cuda_lowering(ctx, query, key, value, scale)\<close>: the
  shapes of \<open>query\<close> and \<open>key\<close> are unpacked, the configuration is created with the
  literals \<^verbatim>\<open>0, False, False\<close>, and \<^verbatim>\<open>custom_call\<close> is called; its result, or
  its exception, is the result of the lowering.
\<close>

definition dot_product_attention_fwd_cuda_lowering ::
  "(('s, int) custom_call_args \<Rightarrow> error + 'o) \<Rightarrow> 'c \<Rightarrow> Value \<Rightarrow> Value \<Rightarrow> Value \<Rightarrow> 's
     \<Rightarrow> error + 'o" where
  "dot_product_attention_fwd_cuda_lowering custom_call ctx query key val scale =
     (let query_type = value_type query; query_shape = rt_shape query_type;
          key_type = value_type key; key_shape = rt_shape key_type;
          value_type' = value_type val; value_shape = rt_shape value_type'
      in case unpack4 query_shape of
           Inl e \<Rightarrow> Inl e
         | Inr (batch_size, q_seq_len, num_heads, head_dim) \<Rightarrow>
             (case unpack4 key_shape of
                Inl e \<Rightarrow> Inl e
              | Inr (_, kv_seq_len, _, _) \<Rightarrow>
                 (let output_shape = [batch_size, q_seq_len, num_heads, head_dim];
                      activation_shape = [batch_size, num_heads, q_seq_len, kv_seq_len];
                      opaque = create_dot_product_attention_backend_config batch_size
                        num_heads q_seq_len kv_seq_len (rt_element_type query_type) scale
                        0 False False
                  in custom_call
                      \<lparr>call_target_name = ''__cudnn$fhmaSoftmax'',
                       result_types =
                         [\<lparr>rt_shape = output_shape,
                           rt_element_type = rt_element_type query_type\<rparr>,
                          \<lparr>rt_shape = activation_shape,
                           rt_element_type = rt_element_type query_type\<rparr>],
                       operands = [query, key, val],
                       backend_config = opaque,
                       operand_layouts = default_layouts [query_shape, key_shape, value_shape],
                       result_layouts = default_layouts [output_shape, activation_shape]\<rparr>)))"

text \<open>
  \<^verbatim>\<open>_dot_product_attention_bwd_cuda_lowering(ctx, grad_output, query, key, value,
  activation, scale)\<close>: the same unpackings and the same configuration call; the
  operands are \<open>query\<close>, \<open>key\<close>, \<open>value\<close> and \<open>activation\<close>.
\<close>

definition dot_product_attention_bwd_cuda_lowering ::
  "(('s, int) custom_call_args \<Rightarrow> error + 'o) \<Rightarrow> 'c \<Rightarrow> Value \<Rightarrow> Value \<Rightarrow> Value \<Rightarrow> Value
     \<Rightarrow> Value \<Rightarrow> 's \<Rightarrow> error + 'o" where
  "dot_product_attention_bwd_cuda_lowering custom_call ctx grad_output query key val
       activation scale =
     (let query_type = value_type query; query_shape = rt_shape query_type;
          key_type = value_type key; key_shape = rt_shape key_type;
          value_type' = value_type val; value_shape = rt_shape value_type';
          activation_type = value_type activation;
          activation_shape = rt_shape activation_type
      in case unpack4 query_shape of
           Inl e \<Rightarrow> Inl e
         | Inr (batch_size, q_seq_len, num_heads, _) \<Rightarrow>
             (case unpack4 key_shape of
                Inl e \<Rightarrow> Inl e
              | Inr (_, kv_seq_len, _, _) \<Rightarrow>
                 (let opaque = create_dot_product_attention_backend_config batch_size
                        num_heads q_seq_len kv_seq_len (rt_element_type query_type) scale
                        0 False False
                  in custom_call
                      \<lparr>call_target_name = ''__cudnn$fhmaSoftmaxBackward'',
                       result_types =
                         [\<lparr>rt_shape = query_shape,
                           rt_element_type = rt_element_type query_type\<rparr>,
                          \<lparr>rt_shape = key_shape,
                           rt_element_type = rt_element_type key_type\<rparr>,
                          \<lparr>rt_shape = value_shape,
                           rt_element_type = rt_element_type value_type'\<rparr>],
                       operands = [query, key, val, activation],
                       backend_config = opaque,
                       operand_layouts =
                         default_layouts [query_shape, key_shape, value_shape, activation_shape],
                       result_layouts =
                         default_layouts [query_shape, key_shape, value_shape]\<rparr>)))"

section \<open>Properties\<close>

subsection \<open>Auxiliary facts\<close>

lemma unpack4_length4:
  "length xs = 4 \<Longrightarrow> unpack4 xs = Inr (xs ! 0, xs ! 1, xs ! 2, xs ! 3)"
  by (induction xs rule: unpack4.induct) auto

lemma unpack4_not4: "length xs \<noteq> 4 \<Longrightarrow> unpack4 xs = Inl ValueError"
  by (induction xs rule: unpack4.induct) auto

lemma set_all_dtypes: "d \<in> set all_dtypes"
  by (cases d) (simp_all add: all_dtypes_def)

lemma canon_only_supportedD:
  "canon_only_supported canon \<Longrightarrow> canon d \<in> set supported \<Longrightarrow> canon d = d"
  using set_all_dtypes [of d] by (auto simp: canon_only_supported_def list_all_iff)

text \<open>Both modes of the host library's canonicalization satisfy the two predicates.\<close>

lemma canonicalize_keeps: "canon_keeps_supported (canonicalize_dtype x64)"
  by (cases x64) (simp_all add: canon_keeps_supported_def)

lemma canonicalize_only: "canon_only_supported (canonicalize_dtype x64)"
  by (cases x64) (simp_all add: canon_only_supported_def all_dtypes_def supported_def)

lemma canon_accepts:
  assumes "canon_keeps_supported canon"
    and "dq = dk \<and> dk = dv \<and> dq \<in> set supported"
  shows "canon dq = dq \<and> canon dk = dq \<and> canon dv = dq"
  using assms by (auto simp: canon_keeps_supported_def supported_def)

lemma canon_rejects:
  assumes "canon_only_supported canon"
    and "\<not> (dq = dk \<and> dk = dv \<and> dq \<in> set supported)"
  shows "\<not> (canon dq = canon dk \<and> canon dk = canon dv \<and> canon dq \<in> set supported)"
proof
  assume h: "canon dq = canon dk \<and> canon dk = canon dv \<and> canon dq \<in> set supported"
  then have e1: "canon dq = canon dk" and e2: "canon dk = canon dv"
    and m: "canon dq \<in> set supported"
    by blast+
  from m have q: "canon dq = dq"
    using assms(1) canon_only_supportedD by blast
  from m e1 have "canon dk \<in> set supported" by metis
  then have k: "canon dk = dk"
    using assms(1) canon_only_supportedD by blast
  from m e1 e2 have "canon dv \<in> set supported" by metis
  then have v: "canon dv = dv"
    using assms(1) canon_only_supportedD by blast
  from e1 e2 m q k v assms(2) show False by metis
qed

text \<open>The four ways out of forward abstract evaluation, in the order of the source.\<close>

lemma fwd_abstract_assert:
  assumes "\<not> (canon (dtype query) = canon (dtype key) \<and> canon (dtype key) = canon (dtype val)
      \<and> canon (dtype query) \<in> set supported)"
  shows "dot_product_attention_fwd_abstract canon query key val scale = Inl AssertionError"
  using assms
  by (auto simp: dot_product_attention_fwd_abstract_def supported_def Let_def)

lemma fwd_abstract_rank_query:
  assumes "canon (dtype query) = d" and "canon (dtype key) = d" and "canon (dtype val) = d"
    and "d \<in> set supported"
    and "length (shape query) \<noteq> 4"
  shows "dot_product_attention_fwd_abstract canon query key val scale = Inl ValueError"
  using assms
  by (simp add: dot_product_attention_fwd_abstract_def supported_def unpack4_not4)

lemma fwd_abstract_rank_key:
  assumes "canon (dtype query) = d" and "canon (dtype key) = d" and "canon (dtype val) = d"
    and "d \<in> set supported"
    and "length (shape query) = 4" and "length (shape key) \<noteq> 4"
  shows "dot_product_attention_fwd_abstract canon query key val scale = Inl ValueError"
  using assms
  by (simp add: dot_product_attention_fwd_abstract_def supported_def unpack4_length4
      unpack4_not4)

lemma fwd_abstract_value:
  assumes "canon (dtype query) = d" and "canon (dtype key) = d" and "canon (dtype val) = d"
    and "d \<in> set supported"
    and "length (shape query) = 4" and "length (shape key) = 4"
  shows "dot_product_attention_fwd_abstract canon query key val scale =
    Inr (\<lparr>shape = [shape query ! 0, shape query ! 1, shape query ! 2, shape query ! 3],
          dtype = d\<rparr>,
         \<lparr>shape = [shape query ! 0, shape query ! 2, shape query ! 1, shape key ! 1],
          dtype = d\<rparr>)"
  using assms
  by (simp add: dot_product_attention_fwd_abstract_def supported_def unpack4_length4)

lemma bwd_abstract_assert:
  assumes "\<not> (canon (dtype query) = canon (dtype key) \<and> canon (dtype key) = canon (dtype val)
      \<and> canon (dtype query) \<in> set supported)"
  shows "dot_product_attention_bwd_abstract canon grad_output query key val activation scale
     = Inl AssertionError"
  using assms
  by (auto simp: dot_product_attention_bwd_abstract_def supported_def Let_def)

lemma element_type_mapping_None_iff:
  "element_type_to_backend_config_type_mapping dt = None \<longleftrightarrow> dt \<noteq> BF16Type \<and> dt \<noteq> F16Type"
  by (simp add: element_type_to_backend_config_type_mapping_def)

subsection \<open>Forward abstract evaluation\<close>

text \<open>
  Claim C1. For a rank-4 query \<open>(batch, qSeqLen, numHeads, headDim)\<close> and a rank-4 key
  with \<open>kvSeqLen\<close> in axis 1, query, key and value sharing one dtype \<open>d\<close> that is fp16
  or bf16, forward abstract evaluation returns exactly the pair of the output
  descriptor of shape \<open>(batch, qSeqLen, numHeads, headDim)\<close> and the activation
  descriptor of shape \<open>(batch, numHeads, qSeqLen, kvSeqLen)\<close>, both of dtype \<open>d\<close>.
  Nothing is asked of the shape of the value descriptor, which the function never
  reads; canonicalization is only asked to leave fp16 and bf16 alone.
\<close>

theorem fwd_abstract_shapes:
  assumes "canon_keeps_supported canon"
    and "shape query = [batch, qSeqLen, numHeads, headDim]"
    and "shape key = [kb, kvSeqLen, kh, kd]"
    and "dtype query = d" and "dtype key = d" and "dtype val = d"
    and "d \<in> set supported"
  shows "dot_product_attention_fwd_abstract canon query key val scale =
    Inr (\<lparr>shape = [batch, qSeqLen, numHeads, headDim], dtype = d\<rparr>,
         \<lparr>shape = [batch, numHeads, qSeqLen, kvSeqLen], dtype = d\<rparr>)"
proof -
  from assms(1,4-7) have c: "canon (dtype query) = d" "canon (dtype key) = d"
      "canon (dtype val) = d"
    by (auto simp: canon_keeps_supported_def supported_def)
  from assms(2,3) have l: "length (shape query) = 4" "length (shape key) = 4"
    by simp_all
  show ?thesis
    using fwd_abstract_value [OF c assms(7) l, of scale] assms(2,3) by simp
qed

theorem fwd_abstract_shapes_witness:
  "canon_keeps_supported (canonicalize_dtype False) \<and> bfloat16 \<in> set supported \<and>
   dot_product_attention_fwd_abstract (canonicalize_dtype False)
     \<lparr>shape = [2, 128, 4, 64], dtype = bfloat16\<rparr>
     \<lparr>shape = [2, 128, 4, 64], dtype = bfloat16\<rparr>
     \<lparr>shape = [2, 128, 4, 64], dtype = bfloat16\<rparr> (0.125 :: real) =
   Inr (\<lparr>shape = [2, 128, 4, 64], dtype = bfloat16\<rparr>,
        \<lparr>shape = [2, 4, 128, 128], dtype = bfloat16\<rparr>)"
proof -
  have k: "canon_keeps_supported (canonicalize_dtype False)"
    by (rule canonicalize_keeps)
  have m: "bfloat16 \<in> set supported"
    by (simp add: supported_def)
  have "dot_product_attention_fwd_abstract (canonicalize_dtype False)
     \<lparr>shape = [2, 128, 4, 64], dtype = bfloat16\<rparr>
     \<lparr>shape = [2, 128, 4, 64], dtype = bfloat16\<rparr>
     \<lparr>shape = [2, 128, 4, 64], dtype = bfloat16\<rparr> (0.125 :: real) =
   Inr (\<lparr>shape = [2, 128, 4, 64], dtype = bfloat16\<rparr>,
        \<lparr>shape = [2, 4, 128, 128], dtype = bfloat16\<rparr>)"
    by (rule fwd_abstract_shapes [OF k _ _ _ _ _ m]) simp_all
  with k m show ?thesis by blast
qed

text \<open>
  Claim C3, as stated, fails: the function compares no axis of one tensor with an axis
  of another. Here the key has another batch size and head count than the query, and
  the value another batch size, sequence length and head count than the key, and the
  two descriptors are returned all the same.
\<close>

theorem fwd_abstract_no_shape_check:
  "dot_product_attention_fwd_abstract (canonicalize_dtype False)
     \<lparr>shape = [2, 128, 4, 64], dtype = float16\<rparr>
     \<lparr>shape = [3, 128, 5, 64], dtype = float16\<rparr>
     \<lparr>shape = [7, 9, 1, 1], dtype = float16\<rparr> (0.125 :: real) =
   Inr (\<lparr>shape = [2, 128, 4, 64], dtype = float16\<rparr>,
        \<lparr>shape = [2, 4, 128, 128], dtype = float16\<rparr>)"
  by (simp add: dot_product_attention_fwd_abstract_def)

text \<open>
  Claim C3, amended. Forward abstract evaluation validates the dtypes and the ranks of
  query and key only: it produces descriptors exactly when query, key and value share
  one dtype that is fp16 or bf16 and query and key both have rank 4. Whether batch,
  head-count or sequence axes agree between the three tensors plays no part, and the
  shape of the value descriptor none at all.
\<close>

theorem fwd_abstract_succeeds_iff:
  assumes "canon_keeps_supported canon" and "canon_only_supported canon"
  shows "(\<exists>r. dot_product_attention_fwd_abstract canon query key val scale = Inr r) \<longleftrightarrow>
     (dtype query = dtype key \<and> dtype key = dtype val \<and> dtype query \<in> set supported \<and>
      length (shape query) = 4 \<and> length (shape key) = 4)"
proof (cases "dtype query = dtype key \<and> dtype key = dtype val \<and> dtype query \<in> set supported")
  case False
  then have "dot_product_attention_fwd_abstract canon query key val scale = Inl AssertionError"
    by (rule fwd_abstract_assert [OF canon_rejects [OF assms(2)]])
  then have "\<not> (\<exists>r. dot_product_attention_fwd_abstract canon query key val scale = Inr r)"
    by simp
  with False show ?thesis by blast
next
  case True
  then have m: "dtype query \<in> set supported" by blast
  note c = canon_accepts [OF assms(1) True]
  from c have cq: "canon (dtype query) = dtype query"
    and ck: "canon (dtype key) = dtype query"
    and cv: "canon (dtype val) = dtype query"
    by simp_all
  show ?thesis
  proof (cases "length (shape query) = 4")
    case q4: True
    show ?thesis
    proof (cases "length (shape key) = 4")
      case k4: True
      have "\<exists>r. dot_product_attention_fwd_abstract canon query key val scale = Inr r"
        using fwd_abstract_value [OF cq ck cv m q4 k4, of scale] by blast
      with True q4 k4 show ?thesis by blast
    next
      case k4: False
      have "\<not> (\<exists>r. dot_product_attention_fwd_abstract canon query key val scale = Inr r)"
        using fwd_abstract_rank_key [OF cq ck cv m q4 k4, of scale] by simp
      with k4 show ?thesis by blast
    qed
  next
    case q4: False
    have "\<not> (\<exists>r. dot_product_attention_fwd_abstract canon query key val scale = Inr r)"
      using fwd_abstract_rank_query [OF cq ck cv m q4, of scale] by simp
    with q4 show ?thesis by blast
  qed
qed

theorem fwd_abstract_succeeds_iff_witness:
  "canon_keeps_supported (canonicalize_dtype True) \<and>
   canon_only_supported (canonicalize_dtype True) \<and>
   (\<exists>r. dot_product_attention_fwd_abstract (canonicalize_dtype True)
      \<lparr>shape = [2, 128, 4, 64], dtype = bfloat16\<rparr>
      \<lparr>shape = [5, 77, 3, 64], dtype = bfloat16\<rparr>
      \<lparr>shape = [1, 1], dtype = bfloat16\<rparr> (1 :: real) = Inr r)"
proof -
  have k: "canon_keeps_supported (canonicalize_dtype True)"
    by (rule canonicalize_keeps)
  have o: "canon_only_supported (canonicalize_dtype True)"
    by (rule canonicalize_only)
  show ?thesis
    using k o
      fwd_abstract_succeeds_iff [OF k o,
        of "\<lparr>shape = [2, 128, 4, 64], dtype = bfloat16\<rparr>"
           "\<lparr>shape = [5, 77, 3, 64], dtype = bfloat16\<rparr>"
           "\<lparr>shape = [1, 1], dtype = bfloat16\<rparr>" "1 :: real"]
    by (simp add: supported_def)
qed

text \<open>
  Claim C9, as stated, fails: the dtype assertions come before the unpacking of the
  query shape, so a rank-3 query whose dtype is not supported is rejected by the
  dtype assertion and not by the rank error.
\<close>

theorem fwd_abstract_rank3_dtype_first:
  "dot_product_attention_fwd_abstract (canonicalize_dtype False)
     \<lparr>shape = [2, 128, 64], dtype = float32\<rparr>
     \<lparr>shape = [2, 128, 4, 64], dtype = float32\<rparr>
     \<lparr>shape = [2, 128, 4, 64], dtype = float32\<rparr> (0.125 :: real) = Inl AssertionError"
  by (simp add: dot_product_attention_fwd_abstract_def)

text \<open>
  Claim C9, amended. Every forward call whose query descriptor has rank 3 (missing the
  head axis) fails, and no further processing occurs: no output descriptors are
  computed and no kernel invocation is constructed, the result being the error alone.
  The error is the rank error, the \<^verbatim>\<open>ValueError\<close> of unpacking the query shape,
  when query, key and value share one dtype that is fp16 or bf16, whatever the key and
  the value shapes are; otherwise it is the dtype assertion, which is checked first.
\<close>

theorem fwd_abstract_rank3:
  assumes "length (shape query) = 3"
    and "canon_keeps_supported canon" and "canon_only_supported canon"
  shows "dot_product_attention_fwd_abstract canon query key val scale =
    (if dtype query = dtype key \<and> dtype key = dtype val \<and> dtype query \<in> set supported
     then Inl ValueError else Inl AssertionError)"
proof (cases "dtype query = dtype key \<and> dtype key = dtype val \<and> dtype query \<in> set supported")
  case False
  have "dot_product_attention_fwd_abstract canon query key val scale = Inl AssertionError"
    by (rule fwd_abstract_assert [OF canon_rejects [OF assms(3) False]])
  then show ?thesis by (subst if_not_P [OF False])
next
  case True
  from assms(1) have n4: "length (shape query) \<noteq> 4" by simp
  from True have m: "dtype query \<in> set supported" by blast
  from canon_accepts [OF assms(2) True] have cq: "canon (dtype query) = dtype query"
    and ck: "canon (dtype key) = dtype query"
    and cv: "canon (dtype val) = dtype query"
    by simp_all
  have "dot_product_attention_fwd_abstract canon query key val scale = Inl ValueError"
    by (rule fwd_abstract_rank_query [OF cq ck cv m n4])
  then show ?thesis by (subst if_P [OF True])
qed

theorem fwd_abstract_rank3_witness:
  "length (shape \<lparr>shape = [2, 128, 64], dtype = float16\<rparr>) = 3 \<and>
   canon_keeps_supported (canonicalize_dtype False) \<and>
   canon_only_supported (canonicalize_dtype False) \<and>
   dot_product_attention_fwd_abstract (canonicalize_dtype False)
     \<lparr>shape = [2, 128, 64], dtype = float16\<rparr>
     \<lparr>shape = [2, 128, 4, 64], dtype = float16\<rparr>
     \<lparr>shape = [2, 128, 4, 64], dtype = float16\<rparr> (0.125 :: real) = Inl ValueError \<and>
   dot_product_attention_fwd_abstract (canonicalize_dtype False)
     \<lparr>shape = [2, 128, 64], dtype = float16\<rparr>
     \<lparr>shape = [2, 128, 4, 64], dtype = bfloat16\<rparr>
     \<lparr>shape = [2, 128, 4, 64], dtype = float16\<rparr> (0.125 :: real) = Inl AssertionError"
proof -
  have l: "length (shape \<lparr>shape = [2, 128, 64], dtype = float16\<rparr>) = 3"
    by simp
  have k: "canon_keeps_supported (canonicalize_dtype False)"
    by (rule canonicalize_keeps)
  have o: "canon_only_supported (canonicalize_dtype False)"
    by (rule canonicalize_only)
  show ?thesis
    using l k o
      fwd_abstract_rank3 [OF l k o,
        of "\<lparr>shape = [2, 128, 4, 64], dtype = float16\<rparr>"
           "\<lparr>shape = [2, 128, 4, 64], dtype = float16\<rparr>" "0.125 :: real"]
      fwd_abstract_rank3 [OF l k o,
        of "\<lparr>shape = [2, 128, 4, 64], dtype = bfloat16\<rparr>"
           "\<lparr>shape = [2, 128, 4, 64], dtype = float16\<rparr>" "0.125 :: real"]
    by (simp add: supported_def)
qed

subsection \<open>Backward abstract evaluation\<close>

text \<open>
  Claim C2. For every backward abstract-evaluation call whose query, key and value
  descriptors share one dtype that is fp16 or bf16, the result is exactly three
  descriptors: the first has the shape and dtype of the query, the second those of the
  key, the third those of the value. No rank is asked of any of them.
\<close>

theorem bwd_abstract_grads:
  assumes "canon_keeps_supported canon"
    and "dtype query = d" and "dtype key = d" and "dtype val = d"
    and "d \<in> set supported"
  shows "dot_product_attention_bwd_abstract canon grad_output query key val activation scale =
    Inr (\<lparr>shape = shape query, dtype = dtype query\<rparr>,
         \<lparr>shape = shape key, dtype = dtype key\<rparr>,
         \<lparr>shape = shape val, dtype = dtype val\<rparr>)"
  using assms
  by (auto simp: dot_product_attention_bwd_abstract_def canon_keeps_supported_def
      supported_def)

theorem bwd_abstract_grads_witness:
  "canon_keeps_supported (canonicalize_dtype False) \<and> bfloat16 \<in> set supported \<and>
   dot_product_attention_bwd_abstract (canonicalize_dtype False)
     \<lparr>shape = [2, 128, 4, 64], dtype = bfloat16\<rparr>
     \<lparr>shape = [2, 128, 4, 64], dtype = bfloat16\<rparr>
     \<lparr>shape = [2, 100, 4, 64], dtype = bfloat16\<rparr>
     \<lparr>shape = [2, 100, 4, 32], dtype = bfloat16\<rparr>
     \<lparr>shape = [2, 4, 128, 100], dtype = bfloat16\<rparr> (0.125 :: real) =
   Inr (\<lparr>shape = [2, 128, 4, 64], dtype = bfloat16\<rparr>,
        \<lparr>shape = [2, 100, 4, 64], dtype = bfloat16\<rparr>,
        \<lparr>shape = [2, 100, 4, 32], dtype = bfloat16\<rparr>)"
proof -
  have k: "canon_keeps_supported (canonicalize_dtype False)"
    by (rule canonicalize_keeps)
  have m: "bfloat16 \<in> set supported"
    by (simp add: supported_def)
  show ?thesis
    using k m
      bwd_abstract_grads [OF k _ _ _ m,
        of "\<lparr>shape = [2, 128, 4, 64], dtype = bfloat16\<rparr>"
           "\<lparr>shape = [2, 100, 4, 64], dtype = bfloat16\<rparr>"
           "\<lparr>shape = [2, 100, 4, 32], dtype = bfloat16\<rparr>"
           "\<lparr>shape = [2, 128, 4, 64], dtype = bfloat16\<rparr>"
           "\<lparr>shape = [2, 4, 128, 100], dtype = bfloat16\<rparr>" "0.125 :: real"]
    by simp
qed

text \<open>
  Claim C10. The result of backward abstract evaluation depends on the query, key and
  value descriptors only: two calls with the same three descriptors return the same
  result (the same three gradient descriptors, or the same failure), whatever the two
  grad-output descriptors, the two activation descriptors and the two scales are.
\<close>

theorem bwd_abstract_ignores_grad_output_and_activation:
  "dot_product_attention_bwd_abstract canon grad_output query key val activation scale =
   dot_product_attention_bwd_abstract canon grad_output' query key val activation' scale'"
  by (simp add: dot_product_attention_bwd_abstract_def)

subsection \<open>Dtype validation\<close>

text \<open>
  Claim C4. Whenever the dtypes of query, key and value are not all equal, or the
  shared dtype is neither fp16 nor bf16, forward and backward abstract evaluation both
  fail at a dtype assertion: the result is the error and nothing else, no descriptor
  and no kernel call, which only the lowering functions build. Canonicalization is
  asked only to map no dtype onto fp16 or bf16 other than themselves.
\<close>

theorem abstract_dtype_rejected:
  assumes "canon_only_supported canon"
    and "\<not> (dtype query = dtype key \<and> dtype key = dtype val \<and> dtype query \<in> set supported)"
  shows "dot_product_attention_fwd_abstract canon query key val scale = Inl AssertionError \<and>
    dot_product_attention_bwd_abstract canon grad_output query key val activation scale'
      = Inl AssertionError"
proof -
  note bad = canon_rejects [OF assms]
  show ?thesis
    by (intro conjI fwd_abstract_assert [OF bad] bwd_abstract_assert [OF bad])
qed

theorem abstract_dtype_rejected_witness:
  "canon_only_supported (canonicalize_dtype False) \<and>
   \<not> (float16 = bfloat16 \<and> bfloat16 = float16 \<and> float16 \<in> set supported) \<and>
   dot_product_attention_fwd_abstract (canonicalize_dtype False)
     \<lparr>shape = [2, 128, 4, 64], dtype = float16\<rparr>
     \<lparr>shape = [2, 128, 4, 64], dtype = bfloat16\<rparr>
     \<lparr>shape = [2, 128, 4, 64], dtype = float16\<rparr> (0.125 :: real) = Inl AssertionError \<and>
   dot_product_attention_bwd_abstract (canonicalize_dtype False)
     \<lparr>shape = [2, 128, 4, 64], dtype = float16\<rparr>
     \<lparr>shape = [2, 128, 4, 64], dtype = float16\<rparr>
     \<lparr>shape = [2, 128, 4, 64], dtype = bfloat16\<rparr>
     \<lparr>shape = [2, 128, 4, 64], dtype = float16\<rparr>
     \<lparr>shape = [2, 4, 128, 128], dtype = float16\<rparr> (0.125 :: real) = Inl AssertionError"
proof -
  have o: "canon_only_supported (canonicalize_dtype False)"
    by (rule canonicalize_only)
  have n: "\<not> (dtype \<lparr>shape = [2, 128, 4, 64], dtype = float16\<rparr> =
        dtype \<lparr>shape = [2, 128, 4, 64], dtype = bfloat16\<rparr> \<and>
      dtype \<lparr>shape = [2, 128, 4, 64], dtype = bfloat16\<rparr> =
        dtype \<lparr>shape = [2, 128, 4, 64], dtype = float16\<rparr> \<and>
      dtype \<lparr>shape = [2, 128, 4, 64], dtype = float16\<rparr> \<in> set supported)"
    by simp
  show ?thesis
    using o
      abstract_dtype_rejected [OF o n, of "0.125 :: real"
        "\<lparr>shape = [2, 128, 4, 64], dtype = float16\<rparr>"
        "\<lparr>shape = [2, 4, 128, 128], dtype = float16\<rparr>" "0.125 :: real"]
    by simp
qed

subsection \<open>The backend-configuration encoder\<close>



text \<open>
  Claim C6. For two encoder calls that differ only in batch size, head count and the
  two sequence lengths, the six dimension-numbering blocks of the two records are
  equal: the contracting-axis and batch-axis indices of all six stages do not depend
  on the shape arguments.
\<close>

theorem backend_config_dimension_numbers_fixed:
  "(let c = create_dot_product_attention_backend_config batch_size num_heads seq_q seq_kv
              dt scale rate flash causal;
        c' = create_dot_product_attention_backend_config batch_size' num_heads' seq_q'
              seq_kv' dt scale rate flash causal
    in bmm1_dot_dimension_numbers c = bmm1_dot_dimension_numbers c' \<and>
       bmm2_dot_dimension_numbers c = bmm2_dot_dimension_numbers c' \<and>
       bmm1_grad_gemm1_dot_dimension_numbers c = bmm1_grad_gemm1_dot_dimension_numbers c' \<and>
       bmm1_grad_gemm2_dot_dimension_numbers c = bmm1_grad_gemm2_dot_dimension_numbers c' \<and>
       bmm2_grad_gemm1_dot_dimension_numbers c = bmm2_grad_gemm1_dot_dimension_numbers c' \<and>
       bmm2_grad_gemm2_dot_dimension_numbers c = bmm2_grad_gemm2_dot_dimension_numbers c')"
  by (simp add: create_dot_product_attention_backend_config_def)

text \<open>
  Claim C8, as stated, fails: the tag is looked up with \<^verbatim>\<open>.get\<close>, and the encoder
  puts whatever the lookup yields into the record. For the 32-bit float type, which has
  no tag, a record is produced, and its element-type field is \<^verbatim>\<open>None\<close>.
\<close>

theorem backend_config_untagged_float32:
  "element_type (intermediate_tensor_shape
     (create_dot_product_attention_backend_config 2 4 128 128 F32Type
        (0.125 :: real) (0 :: int) False False)) = None"
  by (simp add: create_dot_product_attention_backend_config_def
      element_type_to_backend_config_type_mapping_def)

text \<open>
  Claim C8, amended. For every dtype that has no backend type tag (any other than the
  two supported formats) the encoder does not fail: it produces the configuration
  record it produces for a supported dtype and the same other arguments, except that
  the element-type field of the intermediate tensor shape is \<^verbatim>\<open>None\<close>.
\<close>

theorem backend_config_untagged:
  assumes "element_type_to_backend_config_type_mapping dt = None"
  shows "create_dot_product_attention_backend_config batch_size num_heads seq_q seq_kv dt
      scale rate flash causal =
    (create_dot_product_attention_backend_config batch_size num_heads seq_q seq_kv BF16Type
      scale rate flash causal)
      \<lparr>intermediate_tensor_shape :=
         (intermediate_tensor_shape
            (create_dot_product_attention_backend_config batch_size num_heads seq_q seq_kv
               BF16Type scale rate flash causal))
          \<lparr>element_type := None\<rparr>\<rparr>"
  using assms by (simp add: create_dot_product_attention_backend_config_def)

theorem backend_config_untagged_witness:
  "element_type_to_backend_config_type_mapping (IntegerType 32) = None \<and>
   create_dot_product_attention_backend_config 2 4 128 128 (IntegerType 32)
     (0.125 :: real) (0 :: int) False False =
   (create_dot_product_attention_backend_config 2 4 128 128 BF16Type
     (0.125 :: real) (0 :: int) False False)
     \<lparr>intermediate_tensor_shape :=
        (intermediate_tensor_shape
           (create_dot_product_attention_backend_config 2 4 128 128 BF16Type
              (0.125 :: real) (0 :: int) False False))
         \<lparr>element_type := None\<rparr>\<rparr>"
proof -
  have n: "element_type_to_backend_config_type_mapping (IntegerType 32) = None"
    by (simp add: element_type_to_backend_config_type_mapping_def)
  show ?thesis
    by (rule conjI [OF n backend_config_untagged [OF n]])
qed

subsection \<open>Lowering\<close>

text \<open>
  Claim C7. Every configuration record that forward or backward lowering constructs
  has dropout rate 0, causal-mask flag false, flash-attention flag false and the seed
  \<^verbatim>\<open>"42"\<close>, whatever the shapes, element types and scale of the call. When the
  query and key types both have rank 4, each lowering hands \<^verbatim>\<open>custom_call\<close> one
  argument record, the same whatever \<^verbatim>\<open>custom_call\<close> does with it, and the
  configuration in that record is pinned so; otherwise an unpacking fails, no
  configuration is constructed and \<^verbatim>\<open>custom_call\<close> is not reached.
\<close>

theorem lowering_config_pinned:
  "(length (rt_shape (value_type query)) = 4 \<and> length (rt_shape (value_type key)) = 4 \<longrightarrow>
      (\<exists>args. (\<forall>custom_call.
            dot_product_attention_fwd_cuda_lowering custom_call ctx query key val scale =
            custom_call args) \<and>
         dropout_rate (backend_config args) = 0 \<and> \<not> is_causal_mask (backend_config args) \<and>
         \<not> is_flash_attention (backend_config args) \<and> seed (backend_config args) = ''42'') \<and>
      (\<exists>args. (\<forall>custom_call.
            dot_product_attention_bwd_cuda_lowering custom_call ctx grad_output query key
              val activation scale = custom_call args) \<and>
         dropout_rate (backend_config args) = 0 \<and> \<not> is_causal_mask (backend_config args) \<and>
         \<not> is_flash_attention (backend_config args) \<and> seed (backend_config args) = ''42'')) \<and>
   (\<not> (length (rt_shape (value_type query)) = 4 \<and> length (rt_shape (value_type key)) = 4) \<longrightarrow>
      (\<forall>custom_call.
         dot_product_attention_fwd_cuda_lowering custom_call ctx query key val scale =
         Inl ValueError) \<and>
      (\<forall>custom_call.
         dot_product_attention_bwd_cuda_lowering custom_call ctx grad_output query key
           val activation scale = Inl ValueError))"
proof (intro conjI impI)
  assume r: "length (rt_shape (value_type query)) = 4 \<and> length (rt_shape (value_type key)) = 4"
  then have q4: "length (rt_shape (value_type query)) = 4"
    and k4: "length (rt_shape (value_type key)) = 4"
    by simp_all
  show "\<exists>args. (\<forall>custom_call.
            dot_product_attention_fwd_cuda_lowering custom_call ctx query key val scale =
            custom_call args) \<and>
         dropout_rate (backend_config args) = 0 \<and> \<not> is_causal_mask (backend_config args) \<and>
         \<not> is_flash_attention (backend_config args) \<and> seed (backend_config args) = ''42''"
    by (rule exI [of _ "projr (dot_product_attention_fwd_cuda_lowering Inr ctx query key val
        scale)"])
      (simp add: dot_product_attention_fwd_cuda_lowering_def unpack4_length4 Let_def
        create_dot_product_attention_backend_config_def q4 k4)
  show "\<exists>args. (\<forall>custom_call.
            dot_product_attention_bwd_cuda_lowering custom_call ctx grad_output query key
              val activation scale = custom_call args) \<and>
         dropout_rate (backend_config args) = 0 \<and> \<not> is_causal_mask (backend_config args) \<and>
         \<not> is_flash_attention (backend_config args) \<and> seed (backend_config args) = ''42''"
    by (rule exI [of _ "projr (dot_product_attention_bwd_cuda_lowering Inr ctx grad_output
        query key val activation scale)"])
      (simp add: dot_product_attention_bwd_cuda_lowering_def unpack4_length4 Let_def
        create_dot_product_attention_backend_config_def q4 k4)
next
  assume n: "\<not> (length (rt_shape (value_type query)) = 4 \<and>
    length (rt_shape (value_type key)) = 4)"
  show "\<forall>custom_call.
         dot_product_attention_fwd_cuda_lowering custom_call ctx query key val scale =
         Inl ValueError"
    using n
    by (cases "length (rt_shape (value_type query)) = 4")
      (simp_all add: dot_product_attention_fwd_cuda_lowering_def unpack4_length4
        unpack4_not4 Let_def)
  show "\<forall>custom_call.
         dot_product_attention_bwd_cuda_lowering custom_call ctx grad_output query key
           val activation scale = Inl ValueError"
    using n
    by (cases "length (rt_shape (value_type query)) = 4")
      (simp_all add: dot_product_attention_bwd_cuda_lowering_def unpack4_length4
        unpack4_not4 Let_def)
qed

text \<open>
  The theorem at the operands of the end-to-end scenario. With a \<^verbatim>\<open>custom_call\<close>
  that returns what it is given, both lowerings return a record with the pinned
  configuration; with one that refuses every argument, the forward lowering fails with
  its error; and with a rank-3 query the unpacking fails before anything is built.
\<close>

theorem lowering_config_pinned_witness:
  "(case dot_product_attention_fwd_cuda_lowering Inr ()
       \<lparr>value_id = 0, value_type = \<lparr>rt_shape = [2, 128, 4, 64], rt_element_type = BF16Type\<rparr>\<rparr>
       \<lparr>value_id = 1, value_type = \<lparr>rt_shape = [2, 128, 4, 64], rt_element_type = BF16Type\<rparr>\<rparr>
       \<lparr>value_id = 2, value_type = \<lparr>rt_shape = [2, 128, 4, 64], rt_element_type = BF16Type\<rparr>\<rparr>
       (0.125 :: real) of
     Inl e \<Rightarrow> False
   | Inr args \<Rightarrow> dropout_rate (backend_config args) = 0 \<and>
       \<not> is_causal_mask (backend_config args) \<and> \<not> is_flash_attention (backend_config args) \<and>
       seed (backend_config args) = ''42'') \<and>
   (case dot_product_attention_bwd_cuda_lowering Inr ()
       \<lparr>value_id = 3, value_type = \<lparr>rt_shape = [2, 128, 4, 64], rt_element_type = BF16Type\<rparr>\<rparr>
       \<lparr>value_id = 0, value_type = \<lparr>rt_shape = [2, 128, 4, 64], rt_element_type = BF16Type\<rparr>\<rparr>
       \<lparr>value_id = 1, value_type = \<lparr>rt_shape = [2, 128, 4, 64], rt_element_type = BF16Type\<rparr>\<rparr>
       \<lparr>value_id = 2, value_type = \<lparr>rt_shape = [2, 128, 4, 64], rt_element_type = BF16Type\<rparr>\<rparr>
       \<lparr>value_id = 4, value_type = \<lparr>rt_shape = [2, 4, 128, 128], rt_element_type = BF16Type\<rparr>\<rparr>
       (0.125 :: real) of
     Inl e \<Rightarrow> False
   | Inr args \<Rightarrow> dropout_rate (backend_config args) = 0 \<and>
       \<not> is_causal_mask (backend_config args) \<and> \<not> is_flash_attention (backend_config args) \<and>
       seed (backend_config args) = ''42'') \<and>
   dot_product_attention_fwd_cuda_lowering
       (\<lambda>args :: (real, int) custom_call_args. Inl RuntimeError :: error + unit) ()
       \<lparr>value_id = 0, value_type = \<lparr>rt_shape = [2, 128, 4, 64], rt_element_type = BF16Type\<rparr>\<rparr>
       \<lparr>value_id = 1, value_type = \<lparr>rt_shape = [2, 128, 4, 64], rt_element_type = BF16Type\<rparr>\<rparr>
       \<lparr>value_id = 2, value_type = \<lparr>rt_shape = [2, 128, 4, 64], rt_element_type = BF16Type\<rparr>\<rparr>
       (0.125 :: real) = Inl RuntimeError \<and>
   dot_product_attention_fwd_cuda_lowering
       (\<lambda>args :: (real, int) custom_call_args. Inl RuntimeError :: error + unit) ()
       \<lparr>value_id = 0, value_type = \<lparr>rt_shape = [2, 128, 64], rt_element_type = BF16Type\<rparr>\<rparr>
       \<lparr>value_id = 1, value_type = \<lparr>rt_shape = [2, 128, 4, 64], rt_element_type = BF16Type\<rparr>\<rparr>
       \<lparr>value_id = 2, value_type = \<lparr>rt_shape = [2, 128, 4, 64], rt_element_type = BF16Type\<rparr>\<rparr>
       (0.125 :: real) = Inl ValueError"
proof -
  let ?q = "\<lparr>value_id = 0, value_type = \<lparr>rt_shape = [2, 128, 4, 64], rt_element_type = BF16Type\<rparr>\<rparr>"
  let ?k = "\<lparr>value_id = 1, value_type = \<lparr>rt_shape = [2, 128, 4, 64], rt_element_type = BF16Type\<rparr>\<rparr>"
  let ?v = "\<lparr>value_id = 2, value_type = \<lparr>rt_shape = [2, 128, 4, 64], rt_element_type = BF16Type\<rparr>\<rparr>"
  let ?g = "\<lparr>value_id = 3, value_type = \<lparr>rt_shape = [2, 128, 4, 64], rt_element_type = BF16Type\<rparr>\<rparr>"
  let ?a = "\<lparr>value_id = 4, value_type = \<lparr>rt_shape = [2, 4, 128, 128], rt_element_type = BF16Type\<rparr>\<rparr>"
  let ?q3 = "\<lparr>value_id = 0, value_type = \<lparr>rt_shape = [2, 128, 64], rt_element_type = BF16Type\<rparr>\<rparr>"
  let ?refuse = "\<lambda>args :: (real, int) custom_call_args. Inl RuntimeError :: error + unit"
  have r: "length (rt_shape (value_type ?q)) = 4 \<and> length (rt_shape (value_type ?k)) = 4"
    by simp
  have n: "\<not> (length (rt_shape (value_type ?q3)) = 4 \<and> length (rt_shape (value_type ?k)) = 4)"
    by simp
  from r lowering_config_pinned [of ?q ?k "()" ?v "0.125 :: real" ?g ?a]
  obtain fargs bargs :: "(real, int) custom_call_args" where
    f: "\<forall>custom_call :: (real, int) custom_call_args \<Rightarrow> error + (real, int) custom_call_args.
          dot_product_attention_fwd_cuda_lowering custom_call () ?q ?k ?v (0.125 :: real) =
          custom_call fargs"
    and fp: "dropout_rate (backend_config fargs) = 0 \<and>
       \<not> is_causal_mask (backend_config fargs) \<and> \<not> is_flash_attention (backend_config fargs) \<and>
       seed (backend_config fargs) = ''42''"
    and b: "\<forall>custom_call :: (real, int) custom_call_args \<Rightarrow> error + (real, int) custom_call_args.
          dot_product_attention_bwd_cuda_lowering custom_call () ?g ?q ?k ?v ?a (0.125 :: real) =
          custom_call bargs"
    and bp: "dropout_rate (backend_config bargs) = 0 \<and>
       \<not> is_causal_mask (backend_config bargs) \<and> \<not> is_flash_attention (backend_config bargs) \<and>
       seed (backend_config bargs) = ''42''"
    by blast
  from f have f1: "dot_product_attention_fwd_cuda_lowering Inr () ?q ?k ?v (0.125 :: real) =
      Inr fargs"
    by (rule spec)
  from b have b1: "dot_product_attention_bwd_cuda_lowering Inr () ?g ?q ?k ?v ?a
      (0.125 :: real) = Inr bargs"
    by (rule spec)
  from r lowering_config_pinned [of ?q ?k "()" ?v "0.125 :: real" ?g ?a]
  obtain uargs :: "(real, int) custom_call_args" where
    u: "\<forall>custom_call :: (real, int) custom_call_args \<Rightarrow> error + unit.
          dot_product_attention_fwd_cuda_lowering custom_call () ?q ?k ?v (0.125 :: real) =
          custom_call uargs"
    by blast
  from u have u1: "dot_product_attention_fwd_cuda_lowering ?refuse () ?q ?k ?v (0.125 :: real) =
      Inl RuntimeError"
    by (rule spec [where x = ?refuse, THEN trans]) (rule refl)
  from n lowering_config_pinned [of ?q3 ?k "()" ?v "0.125 :: real" ?g ?a]
  have "\<forall>custom_call :: (real, int) custom_call_args \<Rightarrow> error + unit.
          dot_product_attention_fwd_cuda_lowering custom_call () ?q3 ?k ?v (0.125 :: real) =
          Inl ValueError"
    by blast
  then have n1: "dot_product_attention_fwd_cuda_lowering ?refuse () ?q3 ?k ?v (0.125 :: real) =
      Inl ValueError"
    by (rule spec)
  show ?thesis
    unfolding f1 b1 u1 n1 using fp bp by simp
qed

end
